theory Spec2Isabelle
  imports
    Complex_Main
    "HOL-Library.Char_ord"
    "HOL-Library.List_Lexorder"
    "HOL-Library.Product_Lexorder"
begin

section \<open>The CloudMart resource-tagging dashboard (script.py)\<close>

text \<open>
  The script loads one table of cloud resources into a pandas DataFrame and computes
  every figure of the dashboard from it by one-line column expressions. The embedding
  keeps the script's variable names. A DataFrame is the list of its rows in index
  order; a cell of a text column is \<open>None\<close> where pandas holds a missing value (NaN)
  and \<open>Some s\<close> otherwise; a cell of \<open>MonthlyCostUSD\<close> is \<open>None\<close> where
  \<open>pd.to_numeric(..., errors='coerce')\<close> produced NaN. Costs are float64 in the
  script; here they are exact reals, so rounding, infinities and NaN produced by
  arithmetic are outside the model.
\<close>

subsection \<open>Rows\<close>

record resource =
  ResourceID :: string
  Service :: "string option"
  Region :: "string option"
  Department :: "string option"
  Project :: "string option"
  Environment :: "string option"
  Owner :: "string option"
  CostCenter :: "string option"
  CreatedBy :: "string option"
  MonthlyCostUSD :: "real option"
  Tagged :: "string option"

text \<open>
  Line 121 adds the column \<open>TagScore\<close> to \<open>df\<close>. Rows of \<open>df\<close> after that line, of
  \<open>untagged_df\<close> and of \<open>editable_df\<close> carry it; rows of \<open>df_original\<close> (copied at
  line 23) do not.
\<close>

record scored = resource +
  TagScore :: int

datatype error = ValueError

subsection \<open>Column primitives of pandas used by the script\<close>

text \<open>\<open>Series.notnull()\<close> on one cell.\<close>

definition notnull :: "'v option \<Rightarrow> bool" where
  "notnull v = (case v of None \<Rightarrow> False | Some _ \<Rightarrow> True)"

text \<open>\<open>Series.sum()\<close> on a numeric column: missing values are skipped (skipna=True).\<close>

definition series_sum :: "real option list \<Rightarrow> real" where
  "series_sum col = sum_list (map (\<lambda>v. case v of None \<Rightarrow> 0 | Some c \<Rightarrow> c) col)"

text \<open>\<open>df[df['Tagged'] == value]\<close>: a missing cell compares unequal to every string.\<close>

definition tagged_is :: "string \<Rightarrow> ('a resource_scheme) list \<Rightarrow> ('a resource_scheme) list" where
  "tagged_is v df = filter (\<lambda>r. Tagged r = Some v) df"

text \<open>\<open>Series.isin(values)\<close> on one cell, for a list of strings.\<close>

definition isin :: "string option \<Rightarrow> string list \<Rightarrow> bool" where
  "isin v vals = (case v of None \<Rightarrow> False | Some s \<Rightarrow> s \<in> set vals)"

subsection \<open>Task set 3: tag completeness (lines 120-121)\<close>

definition tag_fields :: "(('a resource_scheme) \<Rightarrow> string option) list" where
  "tag_fields = [Department, Project, Owner, CostCenter, CreatedBy]"

text \<open>\<open>df[tag_fields].notnull().sum(axis=1)\<close> for one row: the booleans are added as 0 and 1.\<close>

definition tag_score :: "('a resource_scheme) \<Rightarrow> int" where
  "tag_score r = sum_list (map (\<lambda>f. if notnull (f r) then 1 else 0) tag_fields)"

text \<open>\<open>df["TagScore"] = ...\<close>: every row of \<open>df\<close> gets the new column.\<close>

definition add_TagScore :: "resource list \<Rightarrow> scored list" where
  "add_TagScore df = map (\<lambda>r.
     \<lparr>ResourceID = ResourceID r, Service = Service r, Region = Region r,
      Department = Department r, Project = Project r, Environment = Environment r,
      Owner = Owner r, CostCenter = CostCenter r, CreatedBy = CreatedBy r,
      MonthlyCostUSD = MonthlyCostUSD r, Tagged = Tagged r,
      TagScore = tag_score r\<rparr>) df"

subsection \<open>Task set 1: counts (lines 36-64)\<close>

text \<open>\<open>(df['Tagged'] == v).sum()\<close>: the booleans are added as 0 and 1.\<close>

definition count_tagged :: "string \<Rightarrow> ('a resource_scheme) list \<Rightarrow> int" where
  "count_tagged v df = sum_list (map (\<lambda>r. if Tagged r = Some v then 1 else 0) df)"

text \<open>Lines 62-64. \<open>shape[0]\<close> is the number of rows; \<open>/\<close> is true division.\<close>

definition percent_untagged :: "('a resource_scheme) list \<Rightarrow> real" where
  "percent_untagged df =
     (let untagged = length (tagged_is ''No'' df);
          total = length df
      in if total > 0 then real untagged / real total * 100 else 0)"

subsection \<open>Task set 2: cost visibility (lines 73-107)\<close>

definition total_cost :: "('a resource_scheme) list \<Rightarrow> real" where
  "total_cost df = series_sum (map MonthlyCostUSD df)"

definition untagged_cost :: "('a resource_scheme) list \<Rightarrow> real" where
  "untagged_cost df = series_sum (map MonthlyCostUSD (tagged_is ''No'' df))"

definition tagged_cost :: "('a resource_scheme) list \<Rightarrow> real" where
  "tagged_cost df = series_sum (map MonthlyCostUSD (tagged_is ''Yes'' df))"

text \<open>Line 90.\<close>

definition percent_untagged_cost :: "('a resource_scheme) list \<Rightarrow> real" where
  "percent_untagged_cost df =
     (if total_cost df > 0 then untagged_cost df / total_cost df * 100 else 0)"

subsection \<open>Task set 5: before and after remediation (lines 241-264)\<close>

text \<open>
  The "before" figures read \<open>df_original\<close>, the copy of the loaded table taken at
  line 23; the "after" figures read \<open>editable_df\<close>, the table the data editor returns
  for \<open>untagged_df\<close>.
\<close>

definition before_untagged_count :: "resource list \<Rightarrow> int" where
  "before_untagged_count df_original = count_tagged ''No'' df_original"

definition before_untagged_cost :: "resource list \<Rightarrow> real" where
  "before_untagged_cost df_original =
     series_sum (map MonthlyCostUSD (tagged_is ''No'' df_original))"

definition before_untagged_pct_cost :: "resource list \<Rightarrow> real" where
  "before_untagged_pct_cost df_original =
     (if series_sum (map MonthlyCostUSD df_original) > 0
      then before_untagged_cost df_original
             / series_sum (map MonthlyCostUSD df_original) * 100
      else 0)"

definition after_untagged_count :: "scored list \<Rightarrow> int" where
  "after_untagged_count editable_df = count_tagged ''No'' editable_df"

definition after_untagged_cost :: "scored list \<Rightarrow> real" where
  "after_untagged_cost editable_df =
     series_sum (map MonthlyCostUSD (tagged_is ''No'' editable_df))"

definition after_untagged_pct_cost :: "scored list \<Rightarrow> real" where
  "after_untagged_pct_cost editable_df =
     (if series_sum (map MonthlyCostUSD editable_df) > 0
      then after_untagged_cost editable_df
             / series_sum (map MonthlyCostUSD editable_df) * 100
      else 0)"

text \<open>The three "Change" / "Improvement" metrics of lines 254, 259 and 264.\<close>

definition change :: "resource list \<Rightarrow> scored list \<Rightarrow> int" where
  "change df_original editable_df =
     after_untagged_count editable_df - before_untagged_count df_original"

definition cost_improvement :: "resource list \<Rightarrow> scored list \<Rightarrow> real" where
  "cost_improvement df_original editable_df =
     before_untagged_cost df_original - after_untagged_cost editable_df"

definition pct_point_improvement :: "resource list \<Rightarrow> scored list \<Rightarrow> real" where
  "pct_point_improvement df_original editable_df =
     before_untagged_pct_cost df_original - after_untagged_pct_cost editable_df"

subsection \<open>Task set 4.5: interactive filters (lines 193-200)\<close>

text \<open>
  Each multiselect returns the list of selected values; \<open>if service_filter:\<close> is true
  when the list is not empty.
\<close>

definition filtered_df ::
  "('a resource_scheme) list \<Rightarrow> string list \<Rightarrow> string list \<Rightarrow> string list
     \<Rightarrow> ('a resource_scheme) list" where
  "filtered_df df service_filter region_filter dept_filter =
     (let f0 = df;
          f1 = (if service_filter \<noteq> [] then filter (\<lambda>r. isin (Service r) service_filter) f0 else f0);
          f2 = (if region_filter \<noteq> [] then filter (\<lambda>r. isin (Region r) region_filter) f1 else f1);
          f3 = (if dept_filter \<noteq> [] then filter (\<lambda>r. isin (Department r) dept_filter) f2 else f2)
      in f3)"

subsection \<open>Grouping primitives of pandas used by the script\<close>

text \<open>
  \<open>df.groupby(key)[col].sum()\<close> with the defaults the script leaves in place: rows whose
  key is missing form no group (dropna=True), the groups come in ascending key order
  (sort=True), and the sum of a group skips missing values. The result is a Series,
  here the list of its (label, value) pairs in index order.
\<close>

definition group_keys :: "('r \<Rightarrow> 'k::linorder option) \<Rightarrow> 'r list \<Rightarrow> 'k list" where
  "group_keys key df = sort (remdups (List.map_filter key df))"

definition groupby_sum ::
  "('r \<Rightarrow> 'k::linorder option) \<Rightarrow> ('r \<Rightarrow> real option) \<Rightarrow> 'r list \<Rightarrow> ('k \<times> real) list" where
  "groupby_sum key col df =
     map (\<lambda>k. (k, series_sum (map col (filter (\<lambda>r. key r = Some k) df)))) (group_keys key df)"

text \<open>Grouping by two columns: the key of a row is missing when either cell is.\<close>

definition key2 :: "('r \<Rightarrow> 'a option) \<Rightarrow> ('r \<Rightarrow> 'b option) \<Rightarrow> 'r \<Rightarrow> ('a \<times> 'b) option" where
  "key2 k1 k2 r =
     (case k1 r of None \<Rightarrow> None
      | Some a \<Rightarrow> (case k2 r of None \<Rightarrow> None | Some b \<Rightarrow> Some (a, b)))"

text \<open>
  \<open>Series.idxmax()\<close>: the label of the first occurrence of the maximum; on an empty
  Series pandas raises ValueError. \<open>Series.max()\<close> on an empty Series is NaN, here
  \<open>None\<close>.
\<close>

fun idxmax :: "('k \<times> real) list \<Rightarrow> error + 'k" where
  "idxmax [] = Inl ValueError"
| "idxmax ((k, v) # rest) =
     Inr (fst (foldl (\<lambda>(bk, bv) (k', v'). if bv < v' then (k', v') else (bk, bv)) (k, v) rest))"

fun series_max :: "('k \<times> real) list \<Rightarrow> real option" where
  "series_max [] = None"
| "series_max ((k, v) # rest) = Some (fold max (map snd rest) v)"

text \<open>
  \<open>Series.value_counts()\<close> with the default dropna=True: one entry per distinct
  non-missing value, holding the number of rows with that value. The result is read
  here as a mapping from index labels to counts; a label may be a missing value (as it
  is under dropna=False), so the mapping is over \<open>'k option\<close>. The display order of
  the entries (by descending count) is not modelled.
\<close>

definition value_counts :: "'k option list \<Rightarrow> ('k option \<rightharpoonup> nat)" where
  "value_counts col = (\<lambda>label.
     case label of
       None \<Rightarrow> None
     | Some k \<Rightarrow> if Some k \<in> set col then Some (count_list col (Some k)) else None)"

subsection \<open>Task set 1.4 (line 57) and task set 2 aggregations (lines 85-107, 170)\<close>

definition tagged_counts :: "('a resource_scheme) list \<Rightarrow> (string option \<rightharpoonup> nat)" where
  "tagged_counts df = value_counts (map Tagged df)"

definition cost_by_tag :: "('a resource_scheme) list \<Rightarrow> (string \<times> real) list" where
  "cost_by_tag df = groupby_sum Tagged MonthlyCostUSD df"

definition project_cost :: "('a resource_scheme) list \<Rightarrow> (string \<times> real) list" where
  "project_cost df = groupby_sum Project MonthlyCostUSD df"

definition dept_cost :: "('a resource_scheme) list \<Rightarrow> ((string \<times> string) \<times> real) list" where
  "dept_cost df = groupby_sum (key2 Department Tagged) MonthlyCostUSD df"

definition untagged_by_dept :: "('a resource_scheme) list \<Rightarrow> (string \<times> real) list" where
  "untagged_by_dept df = groupby_sum Department MonthlyCostUSD (tagged_is ''No'' df)"

text \<open>
  Lines 95-101. The result is the pair (most_untagged_dept, most_untagged_cost) the
  script writes, or \<open>None\<close> where it shows "No untagged resources found".
\<close>

definition most_untagged_dept ::
  "('a resource_scheme) list \<Rightarrow> error + (string \<times> real option) option" where
  "most_untagged_dept df =
     (if length (untagged_by_dept df) > 0
      then (case idxmax (untagged_by_dept df) of
              Inl e \<Rightarrow> Inl e
            | Inr d \<Rightarrow> Inr (Some (d, series_max (untagged_by_dept df))))
      else Inr None)"

text \<open>
  Lines 104-107. The result is the pair (highest_cost_project, highest_cost_value);
  there is no test of \<open>len(project_cost)\<close> before \<open>idxmax\<close>.
\<close>

definition highest_cost_project ::
  "('a resource_scheme) list \<Rightarrow> error + (string \<times> real option)" where
  "highest_cost_project df =
     (case idxmax (project_cost df) of
        Inl e \<Rightarrow> Inl e
      | Inr p \<Rightarrow> Inr (p, series_max (project_cost df)))"

subsection \<open>Task set 3.4 and 5.1: the untagged subset and its editor (lines 135, 211)\<close>



subsection \<open>Example rows\<close>

definition blank :: resource where
  "blank = \<lparr>ResourceID = ''r'', Service = None, Region = None, Department = None,
     Project = None, Environment = None, Owner = None, CostCenter = None,
     CreatedBy = None, MonthlyCostUSD = None, Tagged = None\<rparr>"

definition blank_scored :: scored where
  "blank_scored = \<lparr>ResourceID = ''r'', Service = None, Region = None, Department = None,
     Project = None, Environment = None, Owner = None, CostCenter = None,
     CreatedBy = None, MonthlyCostUSD = None, Tagged = None, TagScore = 0\<rparr>"

text \<open>
  A table whose costs sum below zero: an untagged resource costing 10 and a tagged
  one carrying a credit of 30.
\<close>

definition credit_df :: "resource list" where
  "credit_df = [blank\<lparr>Tagged := Some ''No'', MonthlyCostUSD := Some 10\<rparr>,
                blank\<lparr>Tagged := Some ''Yes'', MonthlyCostUSD := Some (- 30)\<rparr>]"

definition credit_edited :: "scored list" where
  "credit_edited = [blank_scored\<lparr>Tagged := Some ''No'', MonthlyCostUSD := Some 10\<rparr>,
                    blank_scored\<lparr>Tagged := Some ''Yes'', MonthlyCostUSD := Some (- 30)\<rparr>]"


section \<open>Properties\<close>

subsection \<open>Helper facts about the column primitives\<close>

lemma notnull_iff: "notnull v \<longleftrightarrow> v \<noteq> None"
  by (cases v) (simp_all add: notnull_def)

lemma series_sum_map:
  "series_sum (map col xs) = sum_list (map (\<lambda>r. case col r of None \<Rightarrow> 0 | Some c \<Rightarrow> c) xs)"
  by (simp add: series_sum_def comp_def)

lemma count_tagged_length: "count_tagged v df = int (length (tagged_is v df))"
  by (induction df) (simp_all add: count_tagged_def tagged_is_def)

lemma group_keys_set: "set (group_keys key df) = {k. Some k \<in> key ` set df}"
proof -
  have "set (group_keys key df) = {k. \<exists>r\<in>set df. key r = Some k}"
    by (force simp add: group_keys_def List.map_filter_def)
  also have "\<dots> = {k. Some k \<in> key ` set df}"
    by (auto simp add: image_iff) metis
  finally show ?thesis .
qed

lemma group_keys_distinct: "distinct (group_keys key df)"
  by (simp add: group_keys_def)

text \<open>
  Summing the per-key sums over a finite set of keys visits exactly the rows whose key
  is one of them, each once.
\<close>

lemma sum_over_keys:
  fixes g :: "'r \<Rightarrow> real"
  assumes "finite K"
  shows "(\<Sum>k\<in>K. sum_list (map g (filter (\<lambda>r. key r = Some k) df)))
           = sum_list (map g (filter (\<lambda>r. key r \<in> Some ` K) df))"
proof (induction df)
  case Nil
  show ?case by simp
next
  case (Cons r df)
  show ?case
  proof (cases "key r \<in> Some ` K")
    case True
    then obtain k0 where k0: "k0 \<in> K" "key r = Some k0" by auto
    have "(\<Sum>k\<in>K. sum_list (map g (filter (\<lambda>r. key r = Some k) (r # df))))
        = (\<Sum>k\<in>K. (if k = k0 then g r else 0)
                   + sum_list (map g (filter (\<lambda>r. key r = Some k) df)))"
      by (rule sum.cong) (auto simp add: k0)
    also have "\<dots> = g r + (\<Sum>k\<in>K. sum_list (map g (filter (\<lambda>r. key r = Some k) df)))"
      using assms k0(1) by (simp add: sum.distrib)
    finally show ?thesis using True Cons.IH by simp
  next
    case False
    then have "\<And>k. k \<in> K \<Longrightarrow> key r \<noteq> Some k" by auto
    then have "(\<Sum>k\<in>K. sum_list (map g (filter (\<lambda>r. key r = Some k) (r # df))))
        = (\<Sum>k\<in>K. sum_list (map g (filter (\<lambda>r. key r = Some k) df)))"
      by (intro sum.cong) auto
    then show ?thesis using False Cons.IH by simp
  qed
qed

lemma groupby_sum_total:
  "sum_list (map snd (groupby_sum key col df))
     = series_sum (map col (filter (\<lambda>r. key r \<noteq> None) df))"
proof -
  let ?g = "\<lambda>r. case col r of None \<Rightarrow> 0 | Some c \<Rightarrow> c"
  let ?K = "set (group_keys key df)"
  have "sum_list (map snd (groupby_sum key col df))
      = sum_list (map (\<lambda>k. sum_list (map ?g (filter (\<lambda>r. key r = Some k) df)))
          (group_keys key df))"
    by (simp add: groupby_sum_def comp_def series_sum_map)
  also have "\<dots> = (\<Sum>k\<in>?K. sum_list (map ?g (filter (\<lambda>r. key r = Some k) df)))"
    by (rule sum_list_distinct_conv_sum_set) (rule group_keys_distinct)
  also have "\<dots> = sum_list (map ?g (filter (\<lambda>r. key r \<in> Some ` ?K) df))"
    by (rule sum_over_keys) simp
  also have "filter (\<lambda>r. key r \<in> Some ` ?K) df = filter (\<lambda>r. key r \<noteq> None) df"
  proof (rule filter_cong)
    fix r assume "r \<in> set df"
    then have "key r = Some k \<Longrightarrow> k \<in> ?K" for k
      by (simp add: group_keys_set image_iff) (metis)
    then show "(key r \<in> Some ` ?K) = (key r \<noteq> None)"
      by (cases "key r") auto
  qed simp
  finally show ?thesis by (simp add: series_sum_map)
qed

subsection \<open>Percentages\<close>

text \<open>
  C1, as stated, fails. On a table whose costs sum to -20 (an untagged resource
  costing 10 and a tagged credit of -30) the quotient untagged_cost / total_cost * 100
  is -50, and line 90 yields 0: the guard is \<open>total_cost > 0\<close>, so a negative
  denominator takes the \<open>else 0\<close> branch as well.
\<close>

theorem percent_untagged_cost_negative_total_counterexample:
  "total_cost credit_df = - 20 \<and> untagged_cost credit_df = 10
   \<and> untagged_cost credit_df / total_cost credit_df * 100 = - 50
   \<and> percent_untagged_cost credit_df = 0
   \<and> percent_untagged_cost credit_df \<noteq> untagged_cost credit_df / total_cost credit_df * 100"
  by (simp add: percent_untagged_cost_def total_cost_def untagged_cost_def credit_df_def
      blank_def series_sum_def tagged_is_def)

text \<open>
  C1, amended. Each of the four percentage operations (percent_untagged,
  percent_untagged_cost, before_untagged_pct_cost, after_untagged_pct_cost) returns
  numerator / denominator * 100 when its denominator is positive and 0 otherwise, so
  in particular 0 when the denominator is 0, whatever the numerator. The denominator of
  percent_untagged is a row count, which is never negative.
\<close>

theorem percentages_guarded:
  "percent_untagged df =
     (if length df = 0 then 0
      else real (length (tagged_is ''No'' df)) / real (length df) * 100)
   \<and> percent_untagged_cost df =
     (if total_cost df \<le> 0 then 0 else untagged_cost df / total_cost df * 100)
   \<and> before_untagged_pct_cost df_original =
     (if total_cost df_original \<le> 0 then 0
      else untagged_cost df_original / total_cost df_original * 100)
   \<and> after_untagged_pct_cost edited =
     (if total_cost edited \<le> 0 then 0
      else untagged_cost edited / total_cost edited * 100)"
  by (simp add: percent_untagged_def percent_untagged_cost_def before_untagged_pct_cost_def
      after_untagged_pct_cost_def before_untagged_cost_def after_untagged_cost_def
      total_cost_def untagged_cost_def Let_def not_less)

text \<open>
  C10. Every percentage operation tests \<open>denominator > 0\<close>: when the total cost of the
  table it reads is negative, percent_untagged_cost, before_untagged_pct_cost and
  after_untagged_pct_cost are 0, not the quotient; percent_untagged is 0 whenever its
  row count is not positive.
\<close>

theorem percentages_zero_on_negative_total:
  "(total_cost df < 0 \<longrightarrow> percent_untagged_cost df = 0)
   \<and> (total_cost df_original < 0 \<longrightarrow> before_untagged_pct_cost df_original = 0)
   \<and> (total_cost edited < 0 \<longrightarrow> after_untagged_pct_cost edited = 0)
   \<and> (int (length df') \<le> 0 \<longrightarrow> percent_untagged df' = 0)"
  by (simp add: percent_untagged_cost_def before_untagged_pct_cost_def
      after_untagged_pct_cost_def total_cost_def percent_untagged_def)

theorem percentages_zero_on_negative_total_witness:
  "total_cost credit_df < 0
   \<and> untagged_cost credit_df / total_cost credit_df * 100 < 0
   \<and> percent_untagged_cost credit_df = 0
   \<and> before_untagged_pct_cost credit_df = 0
   \<and> total_cost credit_edited < 0
   \<and> after_untagged_pct_cost credit_edited = 0
   \<and> int (length ([] :: resource list)) \<le> 0
   \<and> percent_untagged ([] :: resource list) = 0"
proof -
  have neg: "total_cost credit_df < 0"
    by (simp add: total_cost_def credit_df_def blank_def series_sum_def)
  have neg': "total_cost credit_edited < 0"
    by (simp add: total_cost_def credit_edited_def blank_scored_def series_sum_def)
  have quot: "untagged_cost credit_df / total_cost credit_df * 100 < 0"
    by (simp add: total_cost_def untagged_cost_def credit_df_def blank_def series_sum_def
        tagged_is_def)
  show ?thesis
    using percentages_zero_on_negative_total
      [of credit_df credit_df credit_edited "[] :: resource list"] neg neg' quot
    by simp
qed

subsection \<open>Remediation comparison\<close>

text \<open>
  C2. For every original table and every edited table, the comparator's three deltas
  are: Change = untagged count after - untagged count before, Cost Improvement =
  untagged cost before - untagged cost after, and % Point Improvement = percentage
  before - percentage after. All three "after" operands are the metrics of the one
  table \<open>editable_df\<close>, and all three "before" operands those of \<open>df_original\<close>: the
  count, the untagged cost and the percentage are the same functions of a table
  (those of lines 62, 77 and 90) applied to each of the two.
\<close>

theorem remediation_deltas:
  "change df_original edited =
     int (length (tagged_is ''No'' edited)) - int (length (tagged_is ''No'' df_original))
   \<and> cost_improvement df_original edited =
     untagged_cost df_original - untagged_cost edited
   \<and> pct_point_improvement df_original edited =
     percent_untagged_cost df_original - percent_untagged_cost edited"
  by (simp add: change_def cost_improvement_def pct_point_improvement_def
      before_untagged_count_def after_untagged_count_def count_tagged_length
      before_untagged_cost_def after_untagged_cost_def untagged_cost_def
      before_untagged_pct_cost_def after_untagged_pct_cost_def percent_untagged_cost_def
      total_cost_def)

subsection \<open>Tag completeness\<close>

text \<open>
  C3. For every resource, the TagScore the script attaches at line 121 is the number of
  non-null cells among Department, Project, Owner, CostCenter and CreatedBy of that
  resource, and it lies between 0 and 5.
\<close>

theorem TagScore_counts_nonnull:
  "map TagScore (add_TagScore df) =
     map (\<lambda>r. int (length (filter (\<lambda>v. v \<noteq> None)
            [Department r, Project r, Owner r, CostCenter r, CreatedBy r]))) df
   \<and> list_all (\<lambda>s. 0 \<le> TagScore s \<and> TagScore s \<le> 5) (add_TagScore df)"
proof -
  have score: "tag_score r = int (length (filter (\<lambda>v. v \<noteq> None)
      [Department r, Project r, Owner r, CostCenter r, CreatedBy r]))"
    for r :: resource
    by (simp add: tag_score_def tag_fields_def notnull_iff)
  have bound: "0 \<le> tag_score r \<and> tag_score r \<le> 5" for r :: resource
    by (simp add: tag_score_def tag_fields_def)
  show ?thesis
    by (simp add: add_TagScore_def comp_def score list_all_iff bound)
qed



subsection \<open>Filters\<close>

text \<open>
  C4. For every table and every three selections, the filtered table holds exactly the
  rows, in their order, whose Service, Region and Department each belong to the
  corresponding selection whenever that selection is not empty; an empty selection
  constrains nothing, and with all three empty the table is returned unchanged.
\<close>

theorem filtered_df_conjunction:
  "filtered_df df service_filter region_filter dept_filter =
     filter (\<lambda>r. (service_filter = [] \<or> Service r \<in> Some ` set service_filter)
               \<and> (region_filter = [] \<or> Region r \<in> Some ` set region_filter)
               \<and> (dept_filter = [] \<or> Department r \<in> Some ` set dept_filter)) df
   \<and> filtered_df df [] [] [] = df"
proof -
  have m: "isin v vals \<longleftrightarrow> v \<in> Some ` set vals" for v vals
    by (cases v) (auto simp add: isin_def)
  show ?thesis
    by (auto simp add: filtered_df_def Let_def m intro: filter_cong)
qed

subsection \<open>Grouping\<close>

text \<open>
  C6, as stated, fails. A resource costing 10 whose Project cell is missing belongs to
  no group of \<open>df.groupby("Project")\<close>: the group sums add up to 0, the table's cost
  to 10.
\<close>

theorem project_cost_drops_null_key_counterexample:
  "sum_list (map snd (project_cost [blank\<lparr>MonthlyCostUSD := Some 10\<rparr>])) = 0
   \<and> total_cost [blank\<lparr>MonthlyCostUSD := Some 10\<rparr>] = 10"
  by (simp add: project_cost_def groupby_sum_def group_keys_def List.map_filter_def
      blank_def total_cost_def series_sum_def)

text \<open>
  C6, amended. For every table and every grouping key, the group sums of
  MonthlyCostUSD add up to the sum of MonthlyCostUSD over the rows whose grouping key
  is not null (for two keys: neither cell null); rows with a null key are in no group.
  This holds for cost_by_tag, project_cost and dept_cost.
\<close>

theorem groupby_sum_partition_nonnull:
  "sum_list (map snd (groupby_sum key col df))
     = series_sum (map col (filter (\<lambda>r. key r \<noteq> None) df))
   \<and> sum_list (map snd (cost_by_tag df)) = total_cost (filter (\<lambda>r. Tagged r \<noteq> None) df)
   \<and> sum_list (map snd (project_cost df)) = total_cost (filter (\<lambda>r. Project r \<noteq> None) df)
   \<and> sum_list (map snd (dept_cost df))
       = total_cost (filter (\<lambda>r. Department r \<noteq> None \<and> Tagged r \<noteq> None) df)"
proof -
  have k2: "key2 Department Tagged r \<noteq> None \<longleftrightarrow> Department r \<noteq> None \<and> Tagged r \<noteq> None"
    for r :: "'z resource_scheme"
    by (simp add: key2_def split: option.splits)
  have k2f: "filter (\<lambda>r. key2 Department Tagged r \<noteq> None) df
      = filter (\<lambda>r. Department r \<noteq> None \<and> Tagged r \<noteq> None) df"
    by (rule filter_cong) (simp_all only: k2)
  show ?thesis
    by (simp only: groupby_sum_total cost_by_tag_def project_cost_def dept_cost_def
        total_cost_def k2f)
qed

text \<open>
  C8, as stated, fails. For a table whose only row has a missing Tagged cell,
  \<open>df['Tagged'].value_counts()\<close> has no entry at all: the row is present and no
  category stands for it.
\<close>

theorem tagged_counts_no_null_category_counterexample:
  "Tagged blank = None \<and> tagged_counts [blank] None = None \<and> dom (tagged_counts [blank]) = {}"
  by (auto simp add: tagged_counts_def value_counts_def blank_def dom_def split: option.splits)

text \<open>
  C8, amended. For every table, tagged_counts maps each distinct non-null value of
  Tagged present in the table to the number of rows holding it, and has no other
  entry: rows with a missing Tagged cell are counted under no category.
\<close>

theorem tagged_counts_nonnull_values:
  "tagged_counts df None = None
   \<and> tagged_counts df (Some v) =
       (if tagged_is v df = [] then None else Some (length (tagged_is v df)))"
proof -
  have "count_list (map Tagged df) (Some v) = length (tagged_is v df)"
    by (induction df) (simp_all add: tagged_is_def)
  moreover have "Some v \<in> set (map Tagged df) \<longleftrightarrow> tagged_is v df \<noteq> []"
    by (simp add: tagged_is_def filter_empty_conv image_iff) (metis)
  ultimately show ?thesis
    by (simp add: tagged_counts_def value_counts_def del: set_map)
qed

subsection \<open>Max-cost entities\<close>

text \<open>The department query tests the length of the grouped Series first and never raises.\<close>

lemma most_untagged_dept_never_raises: "\<exists>res. most_untagged_dept df = Inr res"
  by (cases "untagged_by_dept df") (auto simp add: most_untagged_dept_def)

text \<open>The project query raises exactly when no row has a Project.\<close>

lemma highest_cost_project_raises_iff:
  "highest_cost_project df = Inl ValueError \<longleftrightarrow> list_all (\<lambda>r. Project r = None) df"
proof -
  have "project_cost df = [] \<longleftrightarrow> set (group_keys Project df) = {}"
    by (simp add: project_cost_def groupby_sum_def)
  also have "\<dots> \<longleftrightarrow> list_all (\<lambda>r. Project r = None) df"
    by (auto simp add: group_keys_set list_all_iff image_iff) (metis not_Some_eq)+
  finally have e: "project_cost df = [] \<longleftrightarrow> list_all (\<lambda>r. Project r = None) df" .
  show ?thesis
    by (cases "project_cost df") (use e in \<open>auto simp add: highest_cost_project_def\<close>)
qed

text \<open>
  C5. The claim holds for the department query and fails for the project query, which
  calls \<open>idxmax\<close> on the grouped Series without the length test its sibling has: on
  the empty table, and on a table whose only resource has no Project, the department
  query reports "no untagged resources" and the project query raises ValueError.
\<close>

theorem highest_cost_project_raises_without_project:
  "highest_cost_project ([] :: resource list) = Inl ValueError
   \<and> highest_cost_project [blank\<lparr>Tagged := Some ''Yes'', MonthlyCostUSD := Some 5\<rparr>]
       = Inl ValueError
   \<and> most_untagged_dept [blank\<lparr>Tagged := Some ''Yes'', MonthlyCostUSD := Some 5\<rparr>]
       = Inr None"
  by (simp add: highest_cost_project_def project_cost_def most_untagged_dept_def
      untagged_by_dept_def groupby_sum_def group_keys_def blank_def List.map_filter_def
      tagged_is_def)

end
